theory Spec2Isabelle
  imports Main "HOL-Library.Stream"
begin

section \<open>Python strings\<close>

text \<open>
  A Python \<open>str\<close> is a sequence of Unicode code points, so it is modelled as a list of
  natural numbers. Literals of the source are ASCII and are written as Isabelle strings.
\<close>

type_synonym pystr = "nat list"

definition py :: "string \<Rightarrow> pystr" where
  "py s = map of_char s"

text \<open>
  \<open>str.isspace\<close> of one code point (CPython's \<open>Py_UNICODE_ISSPACE\<close>): the code points of
  bidirectional class WS, B or S, or of category Zs.
\<close>

definition space_ranges :: "(nat \<times> nat) list" where
  "space_ranges =
     [(9, 13), (28, 32), (133, 133), (160, 160), (5760, 5760), (8192, 8202),
      (8232, 8233), (8239, 8239), (8287, 8287), (12288, 12288)]"

definition in_ranges :: "(nat \<times> nat) list \<Rightarrow> nat \<Rightarrow> bool" where
  "in_ranges rs c = list_ex (\<lambda>r. fst r \<le> c \<and> c \<le> snd r) rs"

definition uni_isspace :: "nat \<Rightarrow> bool" where
  "uni_isspace c = in_ranges space_ranges c"

text \<open>
  What \<open>\d\<close> matches in a \<open>str\<close> pattern (CPython's \<open>Py_UNICODE_ISDECIMAL\<close>): the code
  points of category Nd in the Unicode database of Python 3.13 (Unicode 15.1).
\<close>

definition decimal_ranges :: "(nat \<times> nat) list" where
  "decimal_ranges =
     [(48, 57), (1632, 1641), (1776, 1785), (1984, 1993), (2406, 2415), (2534, 2543),
      (2662, 2671), (2790, 2799), (2918, 2927), (3046, 3055), (3174, 3183), (3302, 3311),
      (3430, 3439), (3558, 3567), (3664, 3673), (3792, 3801), (3872, 3881), (4160, 4169),
      (4240, 4249), (6112, 6121), (6160, 6169), (6470, 6479), (6608, 6617), (6784, 6793),
      (6800, 6809), (6992, 7001), (7088, 7097), (7232, 7241), (7248, 7257), (42528, 42537),
      (43216, 43225), (43264, 43273), (43472, 43481), (43504, 43513), (43600, 43609),
      (44016, 44025), (65296, 65305), (66720, 66729), (68912, 68921), (69734, 69743),
      (69872, 69881), (69942, 69951), (70096, 70105), (70384, 70393), (70736, 70745),
      (70864, 70873), (71248, 71257), (71360, 71369), (71472, 71481), (71904, 71913),
      (72016, 72025), (72784, 72793), (73040, 73049), (73120, 73129), (73552, 73561),
      (92768, 92777), (92864, 92873), (93008, 93017), (120782, 120831),
      (123200, 123209), (123632, 123641), (124144, 124153), (125264, 125273),
      (130032, 130041)]"

definition uni_isdecimal :: "nat \<Rightarrow> bool" where
  "uni_isdecimal c = in_ranges decimal_ranges c"

text \<open>\<open>str.strip()\<close> with no argument removes leading and trailing whitespace.\<close>

definition strip :: "pystr \<Rightarrow> pystr" where
  "strip s = rev (dropWhile uni_isspace (rev (dropWhile uni_isspace s)))"

section \<open>Regular expressions\<close>

text \<open>
  The fragment of Python's \<open>re\<close> syntax that the pattern of the source uses: a literal
  character, \<open>\d\<close>, concatenation, alternation and the counted repetition \<open>{n}\<close>.
  \<open>consume r s\<close> lists, in the order the backtracking matcher tries them, the rests of
  \<open>s\<close> after each way \<open>r\<close> can match at its start; \<open>re.fullmatch\<close> succeeds when one
  of them is empty.
\<close>

datatype regex =
    Lit nat
  | Digit
  | Cat regex regex
  | Alt regex regex
  | Times nat regex

primrec consume :: "regex \<Rightarrow> pystr \<Rightarrow> pystr list" where
  "consume (Lit c) = (\<lambda>s. case s of [] \<Rightarrow> [] | x # xs \<Rightarrow> if x = c then [xs] else [])"
| "consume Digit = (\<lambda>s. case s of [] \<Rightarrow> [] | x # xs \<Rightarrow> if uni_isdecimal x then [xs] else [])"
| "consume (Cat a b) = (\<lambda>s. concat (map (consume b) (consume a s)))"
| "consume (Alt a b) = (\<lambda>s. consume a s @ consume b s)"
| "consume (Times n r) = (\<lambda>s. ((\<lambda>ss. concat (map (consume r) ss)) ^^ n) [s])"

text \<open>
  \<open>re.fullmatch(pattern, string)\<close> returns a match object or \<open>None\<close>; the match object
  is modelled by the text it matched, which for a full match is the whole string.
\<close>

definition fullmatch :: "regex \<Rightarrow> pystr \<Rightarrow> pystr option" where
  "fullmatch r s = (if [] \<in> set (consume r s) then Some s else None)"

text \<open>The pattern of the source, \<^verbatim>\<open>(\+92\d{10}|03\d{9})\<close>.\<close>

definition phone_pattern :: regex where
  "phone_pattern =
     Alt (Cat (Lit 43) (Cat (Lit 57) (Cat (Lit 50) (Times 10 Digit))))
         (Cat (Lit 48) (Cat (Lit 51) (Times 9 Digit)))"

section \<open>The world of one run\<close>

text \<open>
  The function talks to an operator through \<open>input\<close> and \<open>print\<close> and to the
  extraction service through \<open>create_prompt\<close>. A world holds what the operator will type
  on each successive \<open>input\<close> call, what the service will answer on each successive
  \<open>create_prompt\<close> call, and the trace: every call that the function has made so far
  (\<open>input\<close>, \<open>print\<close>, \<open>create_prompt\<close>, \<open>re.fullmatch\<close>), in order, with its
  arguments. Either collaborator may raise instead of returning.
\<close>

datatype exn = EOFError | ServiceError

datatype event =
    Ev_input pystr
  | Ev_print pystr
  | Ev_create_prompt pystr pystr
  | Ev_fullmatch regex pystr

record world =
  stdin :: "(exn + pystr) stream"
  service :: "(exn + pystr) stream"
  trace :: "event list"

definition py_input :: "pystr \<Rightarrow> world \<Rightarrow> (exn + pystr) \<times> world" where
  "py_input p w =
     (shd (stdin w), w\<lparr>stdin := stl (stdin w), trace := trace w @ [Ev_input p]\<rparr>)"

definition py_print :: "pystr \<Rightarrow> world \<Rightarrow> world" where
  "py_print t w = w\<lparr>trace := trace w @ [Ev_print t]\<rparr>"

text \<open>
  \<open>functions.create_prompt\<close> is imported by the source and is not part of it: its
  answers are a parameter of the world.
\<close>

definition create_prompt :: "pystr \<Rightarrow> pystr \<Rightarrow> world \<Rightarrow> (exn + pystr) \<times> world" where
  "create_prompt p u w =
     (shd (service w),
      w\<lparr>service := stl (service w), trace := trace w @ [Ev_create_prompt p u]\<rparr>)"

definition re_fullmatch :: "regex \<Rightarrow> pystr \<Rightarrow> world \<Rightarrow> pystr option \<times> world" where
  "re_fullmatch r s w = (fullmatch r s, w\<lparr>trace := trace w @ [Ev_fullmatch r s]\<rparr>)"

section \<open>get_patient_phoneNumber\<close>

text \<open>
  The function, as its compiled module gives it (names, constants and the order of the
  calls):
  \<^verbatim>\<open>
  def get_patient_phoneNumber() -> str:
      while True:
          user_input = input("Agent: Please tell your phone number: ").strip()
          if not user_input:
              print("Agent: Input cannot be empty. Please enter a valid phone number.")
              continue
          phone_extracted = create_prompt("Extract only the phone number ...",
                                          user_input).strip()
          if phone_extracted == "Invalid" or not re.fullmatch(
                  r"(\+92\d{10}|03\d{9})", phone_extracted):
              print("Agent: Not a valid phone number. Please enter a valid "
                    "Pakistani number (e.g., 03207673078 or +923207373878).")
              continue
          return phone_extracted
  \<close>
  Both \<open>input(...)\<close> and \<open>create_prompt(...)\<close> are followed by \<open>.strip()\<close>. The
  \<open>or\<close> evaluates its right operand, the call of \<open>re.fullmatch\<close>, only when the
  comparison with \<open>"Invalid"\<close> is false.
\<close>

definition prompt_text :: pystr where
  "prompt_text = py ''Agent: Please tell your phone number: ''"

definition empty_notice :: pystr where
  "empty_notice = py ''Agent: Input cannot be empty. Please enter a valid phone number.''"

definition extraction_prompt :: pystr where
  "extraction_prompt =
     py ''Extract only the phone number from the given input. Ensure the response contains only a valid Pakistani phone number. The number should be either:''
     @ [10] @ py ''- A local format starting with '' @ [39] @ py ''03'' @ [39]
     @ py '' followed by 9 more digits (e.g., 03207673078)''
     @ [10] @ py ''- An international format starting with '' @ [39] @ py ''+92'' @ [39]
     @ py '' followed by 10 more digits (e.g., +923207373878)''
     @ [10] @ py ''If the input does not match these formats, return '' @ [39] @ py ''Invalid''
     @ [39] @ py ''. Do not return any other words or explanations.''"

definition sentinel :: pystr where
  "sentinel = py ''Invalid''"

definition reject_notice :: pystr where
  "reject_notice =
     py ''Agent: Not a valid phone number. Please enter a valid Pakistani number (e.g., 03207673078 or +923207373878).''"

text \<open>
  One pass through the body of the \<open>while True\<close> loop: it ends in \<open>continue\<close>, in
  \<open>return phone_extracted\<close>, or in an exception of a collaborator, which the source
  does not catch.
\<close>

datatype flow = Continue | Return pystr | Raise exn

definition loop_body :: "world \<Rightarrow> flow \<times> world" where
  "loop_body w =
     (case py_input prompt_text w of
        (Inl e, w1) \<Rightarrow> (Raise e, w1)
      | (Inr line, w1) \<Rightarrow>
          let user_input = strip line in
          if user_input = [] then (Continue, py_print empty_notice w1)
          else
            (case create_prompt extraction_prompt user_input w1 of
               (Inl e, w2) \<Rightarrow> (Raise e, w2)
             | (Inr reply, w2) \<Rightarrow>
                 let phone_extracted = strip reply in
                 if phone_extracted = sentinel then (Continue, py_print reject_notice w2)
                 else
                   (case re_fullmatch phone_pattern phone_extracted w2 of
                      (None, w3) \<Rightarrow> (Continue, py_print reject_notice w3)
                    | (Some m, w3) \<Rightarrow> (Return phone_extracted, w3))))"

text \<open>
  The loop. \<open>None\<close> is a run that never ends; \<open>Some (Inr v, w)\<close> returns \<open>v\<close> and
  \<open>Some (Inl e, w)\<close> leaves the function with the exception \<open>e\<close>.
\<close>

partial_function (option) get_patient_phoneNumber :: "world \<Rightarrow> ((exn + pystr) \<times> world) option"
  where
  "get_patient_phoneNumber w =
     (case loop_body w of
        (Continue, w') \<Rightarrow> get_patient_phoneNumber w'
      | (Return v, w') \<Rightarrow> Some (Inr v, w')
      | (Raise e, w') \<Rightarrow> Some (Inl e, w'))"

text \<open>The world after \<open>n\<close> passes through the loop body.\<close>

definition after :: "nat \<Rightarrow> world \<Rightarrow> world" where
  "after n w = ((\<lambda>w. snd (loop_body w)) ^^ n) w"

text \<open>
  How a pass through the loop body leaves the function, if it does; and the run that
  goes through \<open>n\<close> passes ending in \<open>continue\<close> and leaves the function in pass
  \<open>n\<close> with the result \<open>r\<close>.
\<close>

definition outcome :: "flow \<Rightarrow> (exn + pystr) option" where
  "outcome f = (case f of Continue \<Rightarrow> None | Return v \<Rightarrow> Some (Inr v) | Raise e \<Rightarrow> Some (Inl e))"

definition stops_at :: "world \<Rightarrow> nat \<Rightarrow> (exn + pystr) \<times> world \<Rightarrow> bool" where
  "stops_at w n r \<longleftrightarrow>
     list_all (\<lambda>k. fst (loop_body (after k w)) = Continue) [0..<n] \<and>
     outcome (fst (loop_body (after n w))) = Some (fst r) \<and>
     snd (loop_body (after n w)) = snd r"

section \<open>The grammar of the specification\<close>

text \<open>
  The target grammar in the words of the specification: the literal prefix \<open>03\<close> followed
  by exactly 9 more decimal digits, or the literal prefix \<open>+92\<close> followed by exactly 10
  decimal digits, and nothing else. A decimal digit is what \<open>\d\<close> stands for in a Python
  \<open>str\<close> pattern: any Unicode decimal digit.
\<close>

definition target_grammar :: "pystr \<Rightarrow> bool" where
  "target_grammar s \<longleftrightarrow>
     take 2 s = py ''03'' \<and> length (drop 2 s) = 9 \<and> list_all uni_isdecimal (drop 2 s) \<or>
     take 3 s = py ''+92'' \<and> length (drop 3 s) = 10 \<and> list_all uni_isdecimal (drop 3 s)"

section \<open>Scripted runs\<close>

text \<open>
  A world in which the operator types the given lines and then closes the input, and the
  service gives the given answers and then fails; and a world in which the operator types
  \<open>x\<close> for ever and the service answers \<open>Invalid\<close> for ever.
\<close>

definition script :: "(exn + pystr) list \<Rightarrow> (exn + pystr) list \<Rightarrow> world" where
  "script ins outs =
     \<lparr>stdin = ins @- sconst (Inl EOFError),
      service = outs @- sconst (Inl ServiceError),
      trace = []\<rparr>"


section \<open>Matching the pattern\<close>

lemma consume_Digit_drop:
  "consume Digit (drop n s) =
     (if n < length s \<and> uni_isdecimal (s ! n) then [drop (Suc n) s] else [])"
proof (cases "n < length s")
  case True
  then have "drop n s = s ! n # drop (Suc n) s" by (simp add: Cons_nth_drop_Suc)
  then show ?thesis using True by simp
next
  case False
  then show ?thesis by simp
qed

lemma consume_digits:
  "consume (Times n Digit) s =
     (if n \<le> length s \<and> list_all uni_isdecimal (take n s) then [drop n s] else [])"
proof (induction n)
  case 0
  show ?case by simp
next
  case (Suc n)
  have step: "consume (Times (Suc n) Digit) s =
      concat (map (consume Digit) (consume (Times n Digit) s))"
    by simp
  show ?case
  proof (cases "n < length s")
    case True
    then have "take (Suc n) s = take n s @ [s ! n]" by (simp add: take_Suc_conv_app_nth)
    then show ?thesis using True Suc unfolding step
      by (auto simp: consume_Digit_drop simp del: consume.simps)
  next
    case False
    then show ?thesis using Suc unfolding step
      by (auto simp: consume_Digit_drop simp del: consume.simps(5))
  qed
qed

lemma full_digits:
  "[] \<in> set (consume (Times n Digit) s) \<longleftrightarrow> length s = n \<and> list_all uni_isdecimal s"
  by (auto simp: consume_digits simp del: consume.simps)

lemma full_Lit_Cat:
  "[] \<in> set (consume (Cat (Lit c) r) s) \<longleftrightarrow> (\<exists>t. s = c # t \<and> [] \<in> set (consume r t))"
  by (cases s) auto

lemma py_prefixes: "py ''+92'' = [43, 57, 50]" "py ''03'' = [48, 51]"
  by (simp_all add: py_def)

lemma full_phone_pattern:
  "[] \<in> set (consume phone_pattern s) \<longleftrightarrow>
     (\<exists>ds. s = py ''03'' @ ds \<and> length ds = 9 \<and> list_all uni_isdecimal ds) \<or>
     (\<exists>ds. s = py ''+92'' @ ds \<and> length ds = 10 \<and> list_all uni_isdecimal ds)"
proof -
  have "[] \<in> set (consume phone_pattern s) \<longleftrightarrow>
      [] \<in> set (consume (Cat (Lit 43) (Cat (Lit 57) (Cat (Lit 50) (Times 10 Digit)))) s) \<or>
      [] \<in> set (consume (Cat (Lit 48) (Cat (Lit 51) (Times 9 Digit))) s)"
    unfolding phone_pattern_def by simp
  then show ?thesis
    unfolding full_Lit_Cat full_digits py_prefixes by auto
qed

lemma fullmatch_Some_iff: "fullmatch r s = Some m \<longleftrightarrow> m = s \<and> [] \<in> set (consume r s)"
  by (auto simp: fullmatch_def)

lemma fullmatch_None_iff: "fullmatch r s = None \<longleftrightarrow> [] \<notin> set (consume r s)"
  by (simp add: fullmatch_def)

section \<open>The loop\<close>

lemma after_0: "after 0 w = w"
  by (simp add: after_def)

lemma after_Suc: "after (Suc n) w = after n (snd (loop_body w))"
  by (simp add: after_def funpow_Suc_right del: funpow.simps)


lemma gpp_Continue:
  "fst (loop_body w) = Continue \<Longrightarrow>
   get_patient_phoneNumber w = get_patient_phoneNumber (snd (loop_body w))"
  by (subst get_patient_phoneNumber.simps) (cases "loop_body w", simp)

lemma gpp_Return:
  "fst (loop_body w) = Return v \<Longrightarrow>
   get_patient_phoneNumber w = Some (Inr v, snd (loop_body w))"
  by (subst get_patient_phoneNumber.simps) (cases "loop_body w", simp)



lemma stops_at_iff:
  "stops_at w n r \<longleftrightarrow>
     (\<forall>k<n. fst (loop_body (after k w)) = Continue) \<and>
     outcome (fst (loop_body (after n w))) = Some (fst r) \<and>
     snd (loop_body (after n w)) = snd r"
  by (auto simp: stops_at_def list_all_iff)

lemma stops_at_0:
  "outcome (fst (loop_body w)) = Some x \<Longrightarrow> stops_at w 0 (x, snd (loop_body w))"
  by (simp add: stops_at_iff after_0)

lemma stops_at_Suc:
  assumes "fst (loop_body w) = Continue" and "stops_at (snd (loop_body w)) n r"
  shows "stops_at w (Suc n) r"
proof -
  have "fst (loop_body (after k w)) = Continue" if "k < Suc n" for k
  proof (cases k)
    case 0
    then show ?thesis using assms(1) by (simp add: after_0)
  next
    case (Suc j)
    then show ?thesis using assms(2) that by (simp add: after_Suc stops_at_iff)
  qed
  then show ?thesis using assms(2) by (simp add: stops_at_iff after_Suc)
qed

lemma gpp_Some_D:
  assumes "get_patient_phoneNumber w = Some r"
  shows "\<exists>n. stops_at w n r"
proof (rule get_patient_phoneNumber.raw_induct
    [where P = "\<lambda>w r. \<exists>n. stops_at w n r", OF _ assms])
  fix f w r
  assume IH: "\<And>w r. f w = Some r \<Longrightarrow> \<exists>n. stops_at w n r"
    and step: "(case loop_body w of (Continue, w') \<Rightarrow> f w'
       | (Return v, w') \<Rightarrow> Some (Inr v, w') | (Raise e, w') \<Rightarrow> Some (Inl e, w')) = Some r"
  obtain c w' where lb: "loop_body w = (c, w')" by (cases "loop_body w")
  show "\<exists>n. stops_at w n r"
  proof (cases c)
    case Continue
    with step lb have "f w' = Some r" by simp
    from IH [OF this] obtain n where "stops_at w' n r" ..
    with lb Continue have "stops_at w (Suc n) r" by (intro stops_at_Suc) simp_all
    then show ?thesis ..
  next
    case (Return v)
    with step lb have "r = (Inr v, snd (loop_body w))" by simp
    moreover have "outcome (fst (loop_body w)) = Some (Inr v)"
      using lb Return by (simp add: outcome_def)
    ultimately have "stops_at w 0 r" by (simp add: stops_at_0)
    then show ?thesis ..
  next
    case (Raise e)
    with step lb have "r = (Inl e, snd (loop_body w))" by simp
    moreover have "outcome (fst (loop_body w)) = Some (Inl e)"
      using lb Raise by (simp add: outcome_def)
    ultimately have "stops_at w 0 r" by (simp add: stops_at_0)
    then show ?thesis ..
  qed
qed



section \<open>One pass through the loop body, case by case\<close>

lemmas io_defs =
  loop_body_def py_input_def py_print_def create_prompt_def re_fullmatch_def Let_def

lemma lb_input_raises:
  "shd (stdin w) = Inl e \<Longrightarrow>
   loop_body w =
     (Raise e, w\<lparr>stdin := stl (stdin w), trace := trace w @ [Ev_input prompt_text]\<rparr>)"
  by (simp add: io_defs)

lemma lb_empty:
  "shd (stdin w) = Inr line \<Longrightarrow> strip line = [] \<Longrightarrow>
   loop_body w = (Continue, w\<lparr>stdin := stl (stdin w),
     trace := trace w @ [Ev_input prompt_text, Ev_print empty_notice]\<rparr>)"
  by (simp add: io_defs)

lemma lb_service_raises:
  "shd (stdin w) = Inr line \<Longrightarrow> strip line \<noteq> [] \<Longrightarrow> shd (service w) = Inl e \<Longrightarrow>
   loop_body w = (Raise e, w\<lparr>stdin := stl (stdin w), service := stl (service w),
     trace := trace w @
       [Ev_input prompt_text, Ev_create_prompt extraction_prompt (strip line)]\<rparr>)"
  by (simp add: io_defs)

lemma lb_sentinel:
  "shd (stdin w) = Inr line \<Longrightarrow> strip line \<noteq> [] \<Longrightarrow> shd (service w) = Inr reply \<Longrightarrow>
   strip reply = sentinel \<Longrightarrow>
   loop_body w = (Continue, w\<lparr>stdin := stl (stdin w), service := stl (service w),
     trace := trace w @
       [Ev_input prompt_text, Ev_create_prompt extraction_prompt (strip line),
        Ev_print reject_notice]\<rparr>)"
  by (simp add: io_defs)

lemma lb_mismatch:
  "shd (stdin w) = Inr line \<Longrightarrow> strip line \<noteq> [] \<Longrightarrow> shd (service w) = Inr reply \<Longrightarrow>
   strip reply \<noteq> sentinel \<Longrightarrow> fullmatch phone_pattern (strip reply) = None \<Longrightarrow>
   loop_body w = (Continue, w\<lparr>stdin := stl (stdin w), service := stl (service w),
     trace := trace w @
       [Ev_input prompt_text, Ev_create_prompt extraction_prompt (strip line),
        Ev_fullmatch phone_pattern (strip reply), Ev_print reject_notice]\<rparr>)"
  by (simp add: io_defs)

lemma lb_accept:
  "shd (stdin w) = Inr line \<Longrightarrow> strip line \<noteq> [] \<Longrightarrow> shd (service w) = Inr reply \<Longrightarrow>
   strip reply \<noteq> sentinel \<Longrightarrow> fullmatch phone_pattern (strip reply) = Some m \<Longrightarrow>
   loop_body w = (Return (strip reply), w\<lparr>stdin := stl (stdin w), service := stl (service w),
     trace := trace w @
       [Ev_input prompt_text, Ev_create_prompt extraction_prompt (strip line),
        Ev_fullmatch phone_pattern (strip reply)]\<rparr>)"
  by (simp add: io_defs)

lemma lb_Return_iff:
  "fst (loop_body w) = Return v \<longleftrightarrow>
     (\<exists>line reply. shd (stdin w) = Inr line \<and> strip line \<noteq> [] \<and>
        shd (service w) = Inr reply \<and> v = strip reply \<and> v \<noteq> sentinel \<and>
        fullmatch phone_pattern v = Some v)"
  by (auto simp: io_defs fullmatch_def split: sum.splits option.splits if_splits)

lemma target_grammar_iff:
  "target_grammar s \<longleftrightarrow> [] \<in> set (consume phone_pattern s)"
proof -
  have "(\<exists>ds. s = p @ ds \<and> length ds = n \<and> list_all uni_isdecimal ds) \<longleftrightarrow>
        take (length p) s = p \<and> length (drop (length p) s) = n \<and>
        list_all uni_isdecimal (drop (length p) s)" for p n
  proof
    assume "\<exists>ds. s = p @ ds \<and> length ds = n \<and> list_all uni_isdecimal ds"
    then show "take (length p) s = p \<and> length (drop (length p) s) = n \<and>
        list_all uni_isdecimal (drop (length p) s)" by auto
  next
    assume r: "take (length p) s = p \<and> length (drop (length p) s) = n \<and>
        list_all uni_isdecimal (drop (length p) s)"
    have "s = take (length p) s @ drop (length p) s" by simp
    with r have "s = p @ drop (length p) s" by simp
    with r show "\<exists>ds. s = p @ ds \<and> length ds = n \<and> list_all uni_isdecimal ds" by blast
  qed
  note split = this
  have len: "length (py ''03'') = 2" "length (py ''+92'') = 3"
    by (simp_all add: py_def)
  show ?thesis
    unfolding full_phone_pattern target_grammar_def
    using split [of "py ''03''" 9] split [of "py ''+92''" 10]
    by (simp only: len)
qed

lemma sentinel_no_match: "fullmatch phone_pattern sentinel = None"
  by (simp add: fullmatch_None_iff full_phone_pattern sentinel_def py_def)

lemma returned_is_accepted:
  assumes "get_patient_phoneNumber w = Some (Inr v, w')"
  shows "\<exists>n. (\<forall>k<n. fst (loop_body (after k w)) = Continue) \<and>
             loop_body (after n w) = (Return v, w')"
proof -
  from gpp_Some_D [OF assms] obtain n where "stops_at w n (Inr v, w')" ..
  then have "\<forall>k<n. fst (loop_body (after k w)) = Continue"
    and "outcome (fst (loop_body (after n w))) = Some (Inr v)"
    and "snd (loop_body (after n w)) = w'"
    by (simp_all add: stops_at_iff)
  moreover from this(2) have "fst (loop_body (after n w)) = Return v"
    by (cases "fst (loop_body (after n w))") (simp_all add: outcome_def)
  ultimately show ?thesis by (metis prod.collapse)
qed

lemmas eval_defs =
  io_defs script_def py_def strip_def sentinel_def uni_isspace_def uni_isdecimal_def
  in_ranges_def space_ranges_def decimal_ranges_def fullmatch_def full_phone_pattern

section \<open>The Validator\<close>

text \<open>
  C1. The Validator accepts a string if and only if the whole string is \<open>03\<close> followed by
  exactly 9 more decimal digits or \<open>+92\<close> followed by exactly 10 decimal digits; every
  other string is rejected. The digits are those of \<open>\d\<close>, the Unicode decimal digits.
  The two examples of the source are accepted; a wrong prefix, one digit too few or too
  many, embedded or surrounding whitespace and a letter among the digits are rejected.
\<close>

theorem validator_accepts_iff_grammar:
  "fullmatch phone_pattern s = (if target_grammar s then Some s else None) \<and>
   fullmatch phone_pattern (py ''03207673078'') = Some (py ''03207673078'') \<and>
   fullmatch phone_pattern (py ''+923207373878'') = Some (py ''+923207373878'') \<and>
   fullmatch phone_pattern (py ''04207673078'') = None \<and>
   fullmatch phone_pattern (py ''0320767307'') = None \<and>
   fullmatch phone_pattern (py ''032076730781'') = None \<and>
   fullmatch phone_pattern (py ''+92 320 737 3878'') = None \<and>
   fullmatch phone_pattern (py '' 03207673078'') = None \<and>
   fullmatch phone_pattern (py ''03207673078'' @ [10]) = None \<and>
   fullmatch phone_pattern (py ''0320767307x'') = None"
proof -
  have "fullmatch phone_pattern s = (if target_grammar s then Some s else None)"
    by (simp add: fullmatch_def target_grammar_iff)
  moreover have
    "fullmatch phone_pattern (py ''03207673078'') = Some (py ''03207673078'')"
    "fullmatch phone_pattern (py ''+923207373878'') = Some (py ''+923207373878'')"
    "fullmatch phone_pattern (py ''04207673078'') = None"
    "fullmatch phone_pattern (py ''0320767307'') = None"
    "fullmatch phone_pattern (py ''032076730781'') = None"
    "fullmatch phone_pattern (py ''+92 320 737 3878'') = None"
    "fullmatch phone_pattern (py '' 03207673078'') = None"
    "fullmatch phone_pattern (py ''03207673078'' @ [10]) = None"
    "fullmatch phone_pattern (py ''0320767307x'') = None"
    by (simp_all add: eval_defs)
  ultimately show ?thesis by simp
qed



text \<open>
  C9. The digits of the pattern are the Unicode decimal digits and not only the ASCII
  ones: \<open>03\<close> followed by nine Arabic-Indic digits, none of them an ASCII character, is
  accepted by the Validator, and a run in which the service answers with that string
  returns it.
\<close>

theorem unicode_digits_accepted:
  "fullmatch phone_pattern (py ''03'' @ [1634, 1632, 1639, 1638, 1639, 1635, 1632, 1639, 1640]) =
     Some (py ''03'' @ [1634, 1632, 1639, 1638, 1639, 1635, 1632, 1639, 1640]) \<and>
   list_all (\<lambda>c. 127 < c) [1634, 1632, 1639, 1638, 1639, 1635, 1632, 1639, 1640 :: nat] \<and>
   map_option fst (get_patient_phoneNumber
     (script [Inr (py ''my number'')]
        [Inr (py ''03'' @ [1634, 1632, 1639, 1638, 1639, 1635, 1632, 1639, 1640])])) =
     Some (Inr (py ''03'' @ [1634, 1632, 1639, 1638, 1639, 1635, 1632, 1639, 1640]))"
  by (subst get_patient_phoneNumber.simps) (simp add: eval_defs)

section \<open>What the function returns\<close>

text \<open>
  C2. Whenever a run of \<open>get_patient_phoneNumber\<close> returns a string, whatever the operator
  typed and whatever the service answered, that string satisfies the target grammar.
\<close>

theorem returned_value_satisfies_grammar:
  assumes "get_patient_phoneNumber w = Some (Inr v, w')"
  shows "target_grammar v"
proof -
  from returned_is_accepted [OF assms] obtain n where "fst (loop_body (after n w)) = Return v"
    by (metis fst_conv)
  then have "fullmatch phone_pattern v = Some v" by (auto simp: lb_Return_iff)
  then show ?thesis by (simp add: target_grammar_iff fullmatch_Some_iff)
qed

theorem returned_value_satisfies_grammar_witness:
  "get_patient_phoneNumber
     (script [Inr (py ''  ''), Inr (py ''call me sometime''), Inr (py ''it is +923207373878'')]
        [Inr (py ''Invalid''), Inr (py ''+923207373878'')]) =
     Some (Inr (py ''+923207373878''),
       \<lparr>stdin = sconst (Inl EOFError), service = sconst (Inl ServiceError),
        trace =
          [Ev_input prompt_text, Ev_print empty_notice,
           Ev_input prompt_text, Ev_create_prompt extraction_prompt (py ''call me sometime''),
           Ev_print reject_notice,
           Ev_input prompt_text,
           Ev_create_prompt extraction_prompt (py ''it is +923207373878''),
           Ev_fullmatch phone_pattern (py ''+923207373878'')]\<rparr>) \<and>
   target_grammar (py ''+923207373878'')"
proof -
  have h: "get_patient_phoneNumber
     (script [Inr (py ''  ''), Inr (py ''call me sometime''), Inr (py ''it is +923207373878'')]
        [Inr (py ''Invalid''), Inr (py ''+923207373878'')]) =
     Some (Inr (py ''+923207373878''),
       \<lparr>stdin = sconst (Inl EOFError), service = sconst (Inl ServiceError),
        trace =
          [Ev_input prompt_text, Ev_print empty_notice,
           Ev_input prompt_text, Ev_create_prompt extraction_prompt (py ''call me sometime''),
           Ev_print reject_notice,
           Ev_input prompt_text,
           Ev_create_prompt extraction_prompt (py ''it is +923207373878''),
           Ev_fullmatch phone_pattern (py ''+923207373878'')]\<rparr>)"
    by ((subst get_patient_phoneNumber.simps, simp add: eval_defs)+)
  from h returned_value_satisfies_grammar [OF h] show ?thesis by simp
qed

section \<open>Facts shared by the claims about the loop\<close>

lemma returned_passed_check:
  assumes "get_patient_phoneNumber w = Some (Inr v, w')"
  shows "v \<noteq> sentinel \<and> fullmatch phone_pattern v = Some v"
proof -
  from returned_is_accepted [OF assms] obtain n where "fst (loop_body (after n w)) = Return v"
    by (metis fst_conv)
  then show ?thesis by (auto simp: lb_Return_iff)
qed



lemma trace_starts_with_prompt:
  "\<exists>rest. trace (snd (loop_body w)) = trace w @ Ev_input prompt_text # rest"
  by (auto simp: io_defs split: sum.splits option.splits if_splits)

lemma next_event_is_prompt:
  "hd (drop (length (trace w)) (trace (snd (loop_body w)))) = Ev_input prompt_text"
proof -
  from trace_starts_with_prompt [of w] obtain rest
    where "trace (snd (loop_body w)) = trace w @ Ev_input prompt_text # rest" ..
  then show ?thesis by simp
qed

lemma strip_empty_iff: "strip s = [] \<longleftrightarrow> list_all uni_isspace s"
proof -
  have "strip s = [] \<longleftrightarrow> dropWhile uni_isspace (rev (dropWhile uni_isspace s)) = []"
    by (simp add: strip_def)
  also have "\<dots> \<longleftrightarrow> (\<forall>x\<in>set (dropWhile uni_isspace s). uni_isspace x)"
    by (simp only: dropWhile_eq_Nil_conv set_rev)
  also have "\<dots> \<longleftrightarrow> dropWhile uni_isspace s = []"
  proof
    assume a: "\<forall>x\<in>set (dropWhile uni_isspace s). uni_isspace x"
    show "dropWhile uni_isspace s = []"
    proof (rule ccontr)
      assume ne: "dropWhile uni_isspace s \<noteq> []"
      then have "\<not> uni_isspace (hd (dropWhile uni_isspace s))" by (rule hd_dropWhile)
      moreover from ne have "hd (dropWhile uni_isspace s) \<in> set (dropWhile uni_isspace s)"
        by simp
      ultimately show False using a by blast
    qed
  next
    assume "dropWhile uni_isspace s = []"
    then show "\<forall>x\<in>set (dropWhile uni_isspace s). uni_isspace x"
      by (metis empty_iff empty_set)
  qed
  also have "\<dots> \<longleftrightarrow> list_all uni_isspace s"
    by (simp add: dropWhile_eq_Nil_conv list_all_iff)
  finally show ?thesis .
qed

lemma strip_decomp:
  "\<exists>a b. s = a @ strip s @ b \<and> list_all uni_isspace a \<and> list_all uni_isspace b"
proof -
  let ?l = "dropWhile uni_isspace s"
  let ?t = "takeWhile uni_isspace (rev ?l)"
  have "strip s @ rev ?t = rev (?t @ dropWhile uni_isspace (rev ?l))"
    by (simp only: strip_def rev_append)
  also have "\<dots> = ?l" by simp
  finally have "takeWhile uni_isspace s @ strip s @ rev ?t = s" by simp
  moreover have "list_all uni_isspace (takeWhile uni_isspace s)" "list_all uni_isspace (rev ?t)"
    by (auto simp: list_all_iff dest: set_takeWhileD)
  ultimately show ?thesis by metis
qed

lemma strip_sentinel: "strip sentinel = sentinel"
  by (simp add: eval_defs)




section \<open>The sentinel\<close>

text \<open>
  C3. When the service answers the sentinel \<open>Invalid\<close>, the cycle is rejected: the loop
  prints the rejection notice and goes on. The comparison with the sentinel comes before
  the grammar check, which is not called in such a cycle, and the sentinel is never
  returned.
\<close>

theorem sentinel_rejected_before_matching:
  assumes "shd (stdin w) = Inr line" and "strip line \<noteq> []"
    and "shd (service w) = Inr sentinel"
  shows "loop_body w =
      (Continue, w\<lparr>stdin := stl (stdin w), service := stl (service w),
         trace := trace w @
           [Ev_input prompt_text, Ev_create_prompt extraction_prompt (strip line),
            Ev_print reject_notice]\<rparr>) \<and>
    get_patient_phoneNumber w = get_patient_phoneNumber (snd (loop_body w)) \<and>
    (\<forall>p s. Ev_fullmatch p s \<notin> set (drop (length (trace w)) (trace (snd (loop_body w))))) \<and>
    (\<forall>u u'. get_patient_phoneNumber u \<noteq> Some (Inr sentinel, u'))"
proof -
  have lb: "loop_body w =
      (Continue, w\<lparr>stdin := stl (stdin w), service := stl (service w),
         trace := trace w @
           [Ev_input prompt_text, Ev_create_prompt extraction_prompt (strip line),
            Ev_print reject_notice]\<rparr>)"
    by (rule lb_sentinel [OF assms strip_sentinel])
  moreover from lb have "get_patient_phoneNumber w = get_patient_phoneNumber (snd (loop_body w))"
    by (intro gpp_Continue) simp
  moreover from lb
  have "\<forall>p s. Ev_fullmatch p s \<notin> set (drop (length (trace w)) (trace (snd (loop_body w))))"
    by simp
  moreover have "\<forall>u u'. get_patient_phoneNumber u \<noteq> Some (Inr sentinel, u')"
    using returned_passed_check by blast
  ultimately show ?thesis by blast
qed

theorem sentinel_rejected_before_matching_witness:
  "loop_body (script [Inr (py ''call me sometime'')] [Inr sentinel]) =
     (Continue,
      \<lparr>stdin = sconst (Inl EOFError), service = sconst (Inl ServiceError),
       trace = [Ev_input prompt_text,
                Ev_create_prompt extraction_prompt (py ''call me sometime''),
                Ev_print reject_notice]\<rparr>)"
proof -
  have "strip (py ''call me sometime'') = py ''call me sometime''"
    by (simp add: eval_defs)
  then show ?thesis
    using sentinel_rejected_before_matching
      [of "script [Inr (py ''call me sometime'')] [Inr sentinel]" "py ''call me sometime''"]
    by (simp add: script_def py_def)
qed

section \<open>Empty input\<close>

text \<open>
  C4. When the operator's input is empty or all whitespace, the loop prints the "cannot be
  empty" notice and asks again at once: the next call is the prompt. The extraction
  service is not called in that cycle and no answer of it is used up, and the rejection
  notice is not printed.
\<close>

theorem empty_input_reprompts:
  assumes "shd (stdin w) = Inr line" and "list_all uni_isspace line"
  shows "loop_body w =
      (Continue, w\<lparr>stdin := stl (stdin w),
         trace := trace w @ [Ev_input prompt_text, Ev_print empty_notice]\<rparr>) \<and>
    get_patient_phoneNumber w = get_patient_phoneNumber (snd (loop_body w)) \<and>
    service (snd (loop_body w)) = service w \<and>
    hd (drop (length (trace (snd (loop_body w)))) (trace (snd (loop_body (snd (loop_body w)))))) =
      Ev_input prompt_text \<and>
    (\<exists>a b. empty_notice = a @ py ''cannot be empty'' @ b) \<and>
    empty_notice \<noteq> reject_notice"
proof -
  from assms(2) have "strip line = []" by (simp add: strip_empty_iff)
  with assms(1) have lb: "loop_body w =
      (Continue, w\<lparr>stdin := stl (stdin w),
         trace := trace w @ [Ev_input prompt_text, Ev_print empty_notice]\<rparr>)"
    by (rule lb_empty)
  moreover from lb have "get_patient_phoneNumber w = get_patient_phoneNumber (snd (loop_body w))"
    by (intro gpp_Continue) simp
  moreover from lb have "service (snd (loop_body w)) = service w" by simp
  moreover have "empty_notice =
      py ''Agent: Input '' @ py ''cannot be empty'' @ py ''. Please enter a valid phone number.''"
    by (simp add: empty_notice_def py_def)
  then have "\<exists>a b. empty_notice = a @ py ''cannot be empty'' @ b" by blast
  moreover have "empty_notice \<noteq> reject_notice"
    by (simp add: empty_notice_def reject_notice_def py_def)
  ultimately show ?thesis using next_event_is_prompt [of "snd (loop_body w)"] by blast
qed

theorem empty_input_reprompts_witness:
  "loop_body (script [Inr (py ''   ''), Inr (py ''03207673078'')] [Inr (py ''03207673078'')]) =
     (Continue,
      \<lparr>stdin = Inr (py ''03207673078'') ## sconst (Inl EOFError),
       service = Inr (py ''03207673078'') ## sconst (Inl ServiceError),
       trace = [Ev_input prompt_text, Ev_print empty_notice]\<rparr>)"
proof -
  have "list_all uni_isspace (py ''   '')" by (simp add: eval_defs)
  then show ?thesis
    using empty_input_reprompts
      [of "script [Inr (py ''   ''), Inr (py ''03207673078'')] [Inr (py ''03207673078'')]"
          "py ''   ''"]
    by (simp add: script_def)
qed

section \<open>Rejected cycles\<close>

text \<open>
  C7. On every rejected cycle, whether the service answered the sentinel or a string that
  fails the grammar check, the loop prints a notice that names the expected format and
  holds one example of the local form and one of the international form, and then asks
  the operator again.
\<close>

theorem rejected_cycle_notice:
  assumes "shd (stdin w) = Inr line" and "strip line \<noteq> []"
    and "shd (service w) = Inr reply"
    and "strip reply = sentinel \<or> fullmatch phone_pattern (strip reply) = None"
  shows "fst (loop_body w) = Continue \<and>
    get_patient_phoneNumber w = get_patient_phoneNumber (snd (loop_body w)) \<and>
    last (trace (snd (loop_body w))) = Ev_print reject_notice \<and>
    hd (drop (length (trace (snd (loop_body w)))) (trace (snd (loop_body (snd (loop_body w)))))) =
      Ev_input prompt_text \<and>
    (\<exists>a b c. reject_notice = a @ py ''03207673078'' @ b @ py ''+923207373878'' @ c) \<and>
    target_grammar (py ''03207673078'') \<and> take 2 (py ''03207673078'') = py ''03'' \<and>
    target_grammar (py ''+923207373878'') \<and> take 3 (py ''+923207373878'') = py ''+92''"
proof -
  have lb: "fst (loop_body w) = Continue \<and>
      last (trace (snd (loop_body w))) = Ev_print reject_notice"
  proof (cases "strip reply = sentinel")
    case True
    from lb_sentinel [OF assms(1,2,3) True] show ?thesis by simp
  next
    case False
    with assms(4) have "fullmatch phone_pattern (strip reply) = None" by simp
    from lb_mismatch [OF assms(1,2,3) False this] show ?thesis by simp
  qed
  then have "get_patient_phoneNumber w = get_patient_phoneNumber (snd (loop_body w))"
    by (intro gpp_Continue) simp
  moreover have "reject_notice =
      py ''Agent: Not a valid phone number. Please enter a valid Pakistani number (e.g., ''
      @ py ''03207673078'' @ py '' or '' @ py ''+923207373878'' @ py '').''"
    by (simp add: reject_notice_def py_def)
  then have "\<exists>a b c. reject_notice = a @ py ''03207673078'' @ b @ py ''+923207373878'' @ c"
    by blast
  moreover have "target_grammar (py ''03207673078'')"
    "take 2 (py ''03207673078'') = py ''03''"
    "target_grammar (py ''+923207373878'')"
    "take 3 (py ''+923207373878'') = py ''+92''"
    by (simp_all add: target_grammar_def py_def uni_isdecimal_def in_ranges_def
        decimal_ranges_def)
  ultimately show ?thesis using lb next_event_is_prompt [of "snd (loop_body w)"] by blast
qed

theorem rejected_cycle_notice_witness:
  "loop_body (script [Inr (py ''0320767307'')] [Inr (py ''0320767307'')]) =
     (Continue,
      \<lparr>stdin = sconst (Inl EOFError), service = sconst (Inl ServiceError),
       trace = [Ev_input prompt_text, Ev_create_prompt extraction_prompt (py ''0320767307''),
                Ev_fullmatch phone_pattern (py ''0320767307''), Ev_print reject_notice]\<rparr>) \<and>
   last (trace (snd (loop_body (script [Inr (py ''0320767307'')] [Inr (py ''0320767307'')])))) =
     Ev_print reject_notice"
proof -
  have a: "strip (py ''0320767307'') \<noteq> []"
    and b: "strip (py ''0320767307'') = sentinel \<or>
      fullmatch phone_pattern (strip (py ''0320767307'')) = None"
    by (simp_all add: eval_defs)
  have "loop_body (script [Inr (py ''0320767307'')] [Inr (py ''0320767307'')]) =
     (Continue,
      \<lparr>stdin = sconst (Inl EOFError), service = sconst (Inl ServiceError),
       trace = [Ev_input prompt_text, Ev_create_prompt extraction_prompt (py ''0320767307''),
                Ev_fullmatch phone_pattern (py ''0320767307''), Ev_print reject_notice]\<rparr>)"
    by (simp add: eval_defs)
  then show ?thesis
    using rejected_cycle_notice
      [of "script [Inr (py ''0320767307'')] [Inr (py ''0320767307'')]"
          "py ''0320767307''" "py ''0320767307''", OF _ a _ b]
    by (simp add: script_def)
qed

section \<open>The retry loop\<close>



section \<open>Failures of the collaborators\<close>




section \<open>The returned string and the service's answer\<close>

text \<open>
  C10, as the claim states it, fails: the answer of the service is stripped before it is
  compared and checked. In the run below the service answers a valid number with a space
  before it and a line feed after it; the answer is not rejected, and the function
  returns the number without them, which is not the answer character for character.
\<close>

theorem reply_is_stripped_counterexample:
  "get_patient_phoneNumber
     (script [Inr (py ''my number is 03207673078'')] [Inr (py '' 03207673078'' @ [10])]) =
   Some (Inr (py ''03207673078''),
     \<lparr>stdin = sconst (Inl EOFError), service = sconst (Inl ServiceError),
      trace = [Ev_input prompt_text,
               Ev_create_prompt extraction_prompt (py ''my number is 03207673078''),
               Ev_fullmatch phone_pattern (py ''03207673078'')]\<rparr>) \<and>
   py '' 03207673078'' @ [10] \<noteq> py ''03207673078''"
  by (subst get_patient_phoneNumber.simps) (simp add: eval_defs)

text \<open>
  C10, amended. On success the function returns the answer of the service in the
  succeeding cycle with its leading and trailing whitespace stripped and nothing else
  changed; an answer that matches the grammar once it is stripped is accepted, whatever
  the operator typed. The returned string is computed from the answer of the service and
  never taken from the operator's input.
\<close>

theorem returned_value_is_stripped_reply:
  "(get_patient_phoneNumber w = Some (Inr v, w') \<longrightarrow>
      (\<exists>n line reply a b.
         (\<forall>k<n. fst (loop_body (after k w)) = Continue) \<and>
         shd (stdin (after n w)) = Inr line \<and> shd (service (after n w)) = Inr reply \<and>
         v = strip reply \<and> reply = a @ v @ b \<and>
         list_all uni_isspace a \<and> list_all uni_isspace b)) \<and>
   (shd (stdin w) = Inr line \<and> strip line \<noteq> [] \<and> shd (service w) = Inr reply \<and>
    target_grammar (strip reply) \<longrightarrow>
      get_patient_phoneNumber w = Some (Inr (strip reply), snd (loop_body w)))"
proof -
  have 1: "\<exists>n line reply a b.
         (\<forall>k<n. fst (loop_body (after k w)) = Continue) \<and>
         shd (stdin (after n w)) = Inr line \<and> shd (service (after n w)) = Inr reply \<and>
         v = strip reply \<and> reply = a @ v @ b \<and>
         list_all uni_isspace a \<and> list_all uni_isspace b"
    if "get_patient_phoneNumber w = Some (Inr v, w')"
  proof -
    from returned_is_accepted [OF that] obtain n
      where c: "\<forall>k<n. fst (loop_body (after k w)) = Continue"
        and "fst (loop_body (after n w)) = Return v" by (metis fst_conv)
    from this(2) obtain line reply
      where r: "shd (stdin (after n w)) = Inr line" "shd (service (after n w)) = Inr reply"
        "v = strip reply"
      unfolding lb_Return_iff by blast
    from strip_decomp [of reply] r(3) obtain a b
      where "reply = a @ v @ b" "list_all uni_isspace a" "list_all uni_isspace b" by blast
    with c r show ?thesis by blast
  qed
  have 2: "get_patient_phoneNumber w = Some (Inr (strip reply), snd (loop_body w))"
    if "shd (stdin w) = Inr line \<and> strip line \<noteq> [] \<and> shd (service w) = Inr reply \<and>
      target_grammar (strip reply)"
  proof -
    from that have m: "fullmatch phone_pattern (strip reply) = Some (strip reply)"
      by (simp add: fullmatch_def target_grammar_iff)
    with sentinel_no_match have "strip reply \<noteq> sentinel" by auto
    with that m have "fst (loop_body w) = Return (strip reply)"
      unfolding lb_Return_iff by blast
    then show ?thesis by (rule gpp_Return)
  qed
  from 1 2 show ?thesis by blast
qed

theorem returned_value_is_stripped_reply_witness:
  "map_option fst (get_patient_phoneNumber
     (script [Inr (py ''it is +923207373878'')]
        [Inr ([9] @ py ''+923207373878'' @ [13, 10])])) =
   Some (Inr (py ''+923207373878''))"
proof -
  let ?w = "script [Inr (py ''it is +923207373878'')]
        [Inr ([9] @ py ''+923207373878'' @ [13, 10])]"
  have h: "shd (stdin ?w) = Inr (py ''it is +923207373878'') \<and>
      strip (py ''it is +923207373878'') \<noteq> [] \<and>
      shd (service ?w) = Inr ([9] @ py ''+923207373878'' @ [13, 10]) \<and>
      target_grammar (strip ([9] @ py ''+923207373878'' @ [13, 10]))"
    by (simp add: eval_defs target_grammar_def)
  have s: "strip ([9] @ py ''+923207373878'' @ [13, 10]) = py ''+923207373878''"
    by (simp add: eval_defs)
  from returned_value_is_stripped_reply
    [of ?w _ _ "py ''it is +923207373878''" "[9] @ py ''+923207373878'' @ [13, 10]"] h
  have "get_patient_phoneNumber ?w =
      Some (Inr (strip ([9] @ py ''+923207373878'' @ [13, 10])), snd (loop_body ?w))"
    by blast
  then show ?thesis by (simp only: s option.map fst_conv)
qed

end
